theory Spec2Isabelle
  imports Main
begin

section \<open>Strings, numbers and the logger\<close>

text \<open>
  The harness splits the captured streams with \<^verbatim>\<open>.split('\n')\<close>. \<open>str_split sep s\<close>
  is that split for a one-character separator on text of the separator's own kind: the
  pieces between the separators, empty pieces kept, so the result has one element more
  than \<open>s\<close> has separators.
\<close>

abbreviation NL :: char where
  "NL \<equiv> CHR 0x0A"

fun str_split :: "char \<Rightarrow> string \<Rightarrow> string list" where
  "str_split sep [] = [[]]"
| "str_split sep (c # cs) =
     (if c = sep then [] # str_split sep cs
      else (case str_split sep cs of
              [] \<Rightarrow> [[c]]
            | l # ls \<Rightarrow> (c # l) # ls))"

text \<open>\<open>str_int i\<close> is the text an f-string puts for the integer \<open>i\<close>.\<close>

definition digit_char :: "nat \<Rightarrow> char" where
  "digit_char d = ''0123456789'' ! d"

fun str_nat :: "nat \<Rightarrow> string" where
  "str_nat n = (if n < 10 then [digit_char n] else str_nat (n div 10) @ [digit_char (n mod 10)])"

declare str_nat.simps [simp del]

definition str_int :: "int \<Rightarrow> string" where
  "str_int i = (if i < 0 then CHR ''-'' # str_nat (nat (- i)) else str_nat (nat i))"

text \<open>
  The state a test threads through its calls: the world outside the process (the FPGA
  slots, as far as the shell sees them), the records the logger has taken, and the seconds
  spent in \<^verbatim>\<open>time.sleep\<close>.
\<close>

datatype level = INFO | WARN | ERROR

record 'w st =
  world :: 'w
  log :: "(level \<times> string) list"
  slept :: nat

definition logger_info :: "string \<Rightarrow> 'w st \<Rightarrow> 'w st" where
  "logger_info msg s = s\<lparr>log := log s @ [(INFO, msg)]\<rparr>"

definition logger_warn :: "string \<Rightarrow> 'w st \<Rightarrow> 'w st" where
  "logger_warn msg s = s\<lparr>log := log s @ [(WARN, msg)]\<rparr>"

definition logger_error :: "string \<Rightarrow> 'w st \<Rightarrow> 'w st" where
  "logger_error msg s = s\<lparr>log := log s @ [(ERROR, msg)]\<rparr>"

definition time_sleep :: "nat \<Rightarrow> 'w st \<Rightarrow> 'w st" where
  "time_sleep n s = s\<lparr>slept := slept s + n\<rparr>"

section \<open>Exceptions, bytes and str\<close>

text \<open>
  What the modelled functions raise: a failed \<^verbatim>\<open>assert\<close> raises AssertionError
  with its message; TypeError, KeyError and JSONDecodeError come from the operations on
  loaded values. ExecutionFailure, with a command, an exit code, stdout and stderr, is the
  signal the specification names for a failed command.
\<close>

datatype error = AssertionError string | TypeError | KeyError | JSONDecodeError
  | ExecutionFailure string int string string

text \<open>
  A Python value that is text: \<^verbatim>\<open>bytes\<close> or \<^verbatim>\<open>str\<close>. The two do not mix:
  \<^verbatim>\<open>x.split('\n')\<close>, with its \<^verbatim>\<open>str\<close> separator, splits a \<^verbatim>\<open>str\<close> and raises
  TypeError on \<^verbatim>\<open>bytes\<close>.
\<close>

datatype pyval = PyBytes string | PyStr string

fun py_split_nl :: "pyval \<Rightarrow> error + pyval list" where
  "py_split_nl (PyStr t) = Inr (map PyStr (str_split NL t))"
| "py_split_nl (PyBytes b) = Inl TypeError"

text \<open>
  What an f-string puts for a text value: a \<^verbatim>\<open>str\<close> as it is, \<^verbatim>\<open>bytes\<close> as their
  \<^verbatim>\<open>repr\<close>, the letter b and the quoted, escaped content.
\<close>

definition hex_char :: "nat \<Rightarrow> char" where
  "hex_char d = ''0123456789abcdef'' ! d"

definition escape_byte :: "char \<Rightarrow> char \<Rightarrow> string" where
  "escape_byte quote c =
     (if c = quote \<or> c = CHR 0x5C then [CHR 0x5C, c]
      else if c = CHR 0x09 then [CHR 0x5C, CHR ''t'']
      else if c = NL then [CHR 0x5C, CHR ''n'']
      else if c = CHR 0x0D then [CHR 0x5C, CHR ''r'']
      else if (of_char c :: nat) < 32 \<or> 127 \<le> (of_char c :: nat)
      then [CHR 0x5C, CHR ''x'', hex_char ((of_char c :: nat) div 16),
            hex_char ((of_char c :: nat) mod 16)]
      else [c])"

definition bytes_repr :: "string \<Rightarrow> string" where
  "bytes_repr b =
     (let quote = (if CHR 0x27 \<in> set b \<and> CHR 0x22 \<notin> set b then CHR 0x22 else CHR 0x27)
      in [CHR ''b'', quote] @ concat (map (escape_byte quote) b) @ [quote])"

fun py_fstr :: "pyval \<Rightarrow> string" where
  "py_fstr (PyStr t) = t"
| "py_fstr (PyBytes b) = bytes_repr b"

section \<open>The command wrapper (AwsFpgaTestBase.run\_cmd)\<close>

text \<open>
  \<^verbatim>\<open>subprocess.Popen(cmd, shell=True, stdout=PIPE, stderr=PIPE)\<close> followed by
  \<^verbatim>\<open>communicate()\<close> is the one place where the harness meets the outside: a shell
  takes the command line and the world, and gives back the finished process (exit code
  and what it wrote to both streams) and the world the process left behind. The pipes
  are opened without text mode, so \<^verbatim>\<open>communicate()\<close> hands both streams over as
  \<^verbatim>\<open>bytes\<close>.
\<close>

record completed =
  returncode :: int
  stdout_bytes :: string
  stderr_bytes :: string

type_synonym 'w shell = "string \<Rightarrow> 'w \<Rightarrow> completed \<times> 'w"

definition cmd_failed_msg :: "string \<Rightarrow> int \<Rightarrow> pyval \<Rightarrow> pyval \<Rightarrow> string" where
  "cmd_failed_msg cmd rc stdout_data stderr_data =
     ''Cmd failed with rc='' @ str_int rc @ [NL] @ ''cmd: '' @ cmd @ [NL]
       @ ''stdout:'' @ [NL] @ py_fstr stdout_data @ [NL] @ ''stderr:'' @ [NL] @ py_fstr stderr_data"

definition cmd_done_msg :: "int \<Rightarrow> pyval \<Rightarrow> pyval \<Rightarrow> string" where
  "cmd_done_msg rc stdout_data stderr_data =
     ''rc='' @ str_int rc @ [NL] @ ''stdout:'' @ [NL] @ py_fstr stdout_data @ [NL]
       @ ''stderr:'' @ [NL] @ py_fstr stderr_data @ [NL]"

text \<open>
  run\_cmd, statement by statement: the optional "Running" record, the process, the two
  splits, the record chosen by check and echo, the return. A split that raises ends the
  call there, with the process run and nothing more logged.
\<close>

definition run_cmd ::
  "'w shell \<Rightarrow> string \<Rightarrow> bool \<Rightarrow> bool \<Rightarrow> 'w st
     \<Rightarrow> (error + int \<times> pyval list \<times> pyval list) \<times> 'w st"
where
  "run_cmd sh cmd echo check s =
     (let s1 = (if echo then logger_info (''Running: '' @ cmd) s else s);
          (p, w) = sh cmd (world s1);
          s2 = s1\<lparr>world := w\<rparr>;
          stdout_data = PyBytes (stdout_bytes p);
          stderr_data = PyBytes (stderr_bytes p)
      in case py_split_nl stdout_data of
           Inl e \<Rightarrow> (Inl e, s2)
         | Inr stdout_lines \<Rightarrow>
             (case py_split_nl stderr_data of
                Inl e \<Rightarrow> (Inl e, s2)
              | Inr stderr_lines \<Rightarrow>
                  (let s3 = (if check \<and> returncode p \<noteq> 0
                             then logger_error
                                    (cmd_failed_msg cmd (returncode p) stdout_data stderr_data) s2
                             else if echo
                             then logger_info (cmd_done_msg (returncode p) stdout_data stderr_data) s2
                             else s2)
                   in (Inr (returncode p, stdout_lines, stderr_lines), s3))))"

text \<open>A shell that answers every command with the same finished process.\<close>

definition const_shell :: "completed \<Rightarrow> unit shell" where
  "const_shell p cmd w = (p, w)"

definition st0 :: "unit st" where
  "st0 = \<lparr>world = (), log = [], slept = 0\<rparr>"

definition busy_reply :: completed where
  "busy_reply = \<lparr>returncode = 3,
                 stdout_bytes = ''Error: (3) busy'' @ [NL] @ ''busy'' @ [NL],
                 stderr_bytes = []\<rparr>"

definition clean_reply :: completed where
  "clean_reply = \<lparr>returncode = 0, stdout_bytes = ''done'' @ [NL], stderr_bytes = []\<rparr>"

section \<open>Slot operations of AwsFpgaTestBase\<close>

definition exec_as_user :: "bool \<Rightarrow> string \<Rightarrow> string" where
  "exec_as_user as_root command = (if as_root then ''sudo '' @ command else command)"

text \<open>
  \<open>re_sub_char c repl s\<close> is \<^verbatim>\<open>re.sub(c, repl, s)\<close> for a pattern that is the one
  literal character \<open>c\<close>: every occurrence of \<open>c\<close> is replaced by \<open>repl\<close>.
\<close>

definition re_sub_char :: "char \<Rightarrow> string \<Rightarrow> string \<Rightarrow> string" where
  "re_sub_char c repl s = concat (map (\<lambda>x. if x = c then repl else [x]) s)"

definition fpga_set_virtual_dip_switch ::
  "'w shell \<Rightarrow> string \<Rightarrow> int \<Rightarrow> bool \<Rightarrow> 'w st \<Rightarrow> (error + unit) \<times> 'w st"
where
  "fpga_set_virtual_dip_switch sh value slot as_root s =
     (let value1 = re_sub_char CHR ''-'' [] value;
          cmd = exec_as_user as_root ''fpga-set-virtual-dip-switch''
                  @ '' -S '' @ str_int slot @ '' -D '' @ value1
      in case run_cmd sh cmd False True s of
           (Inl e, s1) \<Rightarrow> (Inl e, s1)
         | (Inr (rc, stdout_lines, stderr_lines), s1) \<Rightarrow>
             if rc = 0 then (Inr (), s1)
             else (Inl (AssertionError (''Failed to set virtual DIP switches in slot ''
                          @ str_int slot @ '' to '' @ value1 @ ''.'')), s1))"

definition fpga_clear_local_image ::
  "'w shell \<Rightarrow> int \<Rightarrow> int \<Rightarrow> int \<Rightarrow> bool \<Rightarrow> 'w st \<Rightarrow> (error + unit) \<times> 'w st"
where
  "fpga_clear_local_image sh slot request_timeout sync_timeout as_root s =
     (let s0 = logger_info (''Clearing FPGA slot '' @ str_int slot) s;
          cmd = exec_as_user as_root ''fpga-clear-local-image'' @ '' -S '' @ str_int slot
                  @ '' --request-timeout '' @ str_int request_timeout
                  @ '' --sync-timeout '' @ str_int sync_timeout
      in case run_cmd sh cmd False True s0 of
           (Inl e, s1) \<Rightarrow> (Inl e, s1)
         | (Inr (rc, stdout_lines, stderr_lines), s1) \<Rightarrow>
             if rc = 0 then (Inr (), s1)
             else (Inl (AssertionError (''Clearing FPGA slot '' @ str_int slot @ '' failed.'')),
                   s1))"

text \<open>A shell that answers every command alike and keeps the commands it was given.\<close>

definition recording_shell :: "completed \<Rightarrow> (string list) shell" where
  "recording_shell p cmd w = (p, w @ [cmd])"

section \<open>The poll loops of test\_fpga\_tools\<close>

text \<open>
  What \<^verbatim>\<open>aws_fpga_test_utils.fpga_describe_local_image(slot)\<close> returns, with the
  fields the harness reads; all of them are strings (the harness compares statusCode with
  \<^verbatim>\<open>'0'\<close>). The function itself is not part of the modelled sources: the loops take
  it as the parameter \<open>describe\<close>, one sample of a slot that may change the world.
\<close>

record fpga_local_image =
  agfi :: string
  statusName :: string
  statusCode :: string
  errorName :: string
  errorCode :: string

type_synonym 'w describe = "int \<Rightarrow> 'w \<Rightarrow> fpga_local_image \<times> 'w"

text \<open>The rows the tests compare stdout with, as their f-strings build them.\<close>

definition cleared_afi_row :: "int \<Rightarrow> string \<Rightarrow> string" where
  "cleared_afi_row slot shell_version =
     ''AFI          '' @ str_int slot
       @ ''       none                    cleared           1        ok               0       ''
       @ shell_version"

definition loaded_afi_row :: "int \<Rightarrow> string \<Rightarrow> string \<Rightarrow> string" where
  "loaded_afi_row slot image_id shell_version =
     ''AFI          '' @ str_int slot @ ''       '' @ image_id
       @ ''  loaded            0        ok               0       '' @ shell_version"

definition afidevice_row :: "int \<Rightarrow> string \<Rightarrow> string \<Rightarrow> string" where
  "afidevice_row slot device_id device =
     ''AFIDEVICE    '' @ str_int slot @ ''       0x1d0f      '' @ device_id @ ''      '' @ device"

definition afi_header :: string where
  "afi_header = ''Type  FpgaImageSlot  FpgaImageId             StatusName    StatusCode   ErrorName    ErrorCode   ShVersion''"

definition afidevice_header :: string where
  "afidevice_header = ''Type  FpgaImageSlot  VendorId    DeviceId    DBDF''"

text \<open>
  The tail of both loop bodies: run the describe command with echo, then four asserts on
  what came back. The asserts carry no message.
\<close>

definition verify_describe ::
  "'w shell \<Rightarrow> string \<Rightarrow> string \<Rightarrow> string \<Rightarrow> 'w st \<Rightarrow> (error + unit) \<times> 'w st"
where
  "verify_describe sh cmd row0 row1 s =
     (case run_cmd sh cmd True True s of
        (Inl e, s1) \<Rightarrow> (Inl e, s1)
      | (Inr (rc, stdout, stderr), s1) \<Rightarrow>
          if length stdout \<noteq> 3 then (Inl (AssertionError []), s1)
          else if length stderr \<noteq> 1 then (Inl (AssertionError []), s1)
          else if stdout ! 0 \<noteq> PyStr row0 then (Inl (AssertionError []), s1)
          else if stdout ! 1 \<noteq> PyStr row1 then (Inl (AssertionError []), s1)
          else (Inr (), s1))"

text \<open>
  \<^verbatim>\<open>while True:\<close> sample the slot, log its status, and while the status is not the
  target sleep one second and sample again; once it is, verify and \<^verbatim>\<open>break\<close>. The
  loop has no other exit, so a run that never leaves it has no value: \<open>None\<close>. A run
  that leaves it gives the assertion error or the last sample, and the state.
\<close>

partial_function (option) poll_status ::
  "'w describe \<Rightarrow> string \<Rightarrow> ('w st \<Rightarrow> (error + unit) \<times> 'w st) \<Rightarrow> int \<Rightarrow> 'w st
     \<Rightarrow> ((error + fpga_local_image) \<times> 'w st) option"
where
  "poll_status describe target verify slot s =
     (let (fpgaLocalImage, w) = describe slot (world s);
          s1 = logger_info (''status='' @ statusName fpgaLocalImage) (s\<lparr>world := w\<rparr>)
      in if statusName fpgaLocalImage \<noteq> target
         then poll_status describe target verify slot (time_sleep 1 s1)
         else (case verify s1 of
                 (Inl e, s2) \<Rightarrow> Some (Inl e, s2)
               | (Inr u, s2) \<Rightarrow> Some (Inr fpgaLocalImage, s2)))"

declare poll_status.simps [code]

text \<open>
  The world in which the loop takes its sample number \<open>n\<close> (counted from 0) when it
  started in \<open>w\<close>: only sampling changes the world while the loop waits.
\<close>

primrec sample_world :: "'w describe \<Rightarrow> int \<Rightarrow> nat \<Rightarrow> 'w \<Rightarrow> 'w" where
  "sample_world describe slot 0 w = w"
| "sample_world describe slot (Suc n) w = sample_world describe slot n (snd (describe slot w))"

text \<open>The loop of test\_load\_local\_image (after the -A load) and of test\_clear\_local\_image.\<close>

definition poll_loaded ::
  "'w describe \<Rightarrow> 'w shell \<Rightarrow> string \<Rightarrow> string \<Rightarrow> (int \<Rightarrow> string) \<Rightarrow> int \<Rightarrow> 'w st
     \<Rightarrow> ((error + fpga_local_image) \<times> 'w st) option"
where
  "poll_loaded describe sh cl_hello_world_agfi shell_version slot2device slot s =
     poll_status describe ''loaded''
       (verify_describe sh (''sudo fpga-describe-local-image -S '' @ str_int slot)
          (loaded_afi_row slot cl_hello_world_agfi shell_version)
          (afidevice_row slot ''0xf000'' (slot2device slot)))
       slot s"

definition poll_cleared ::
  "'w describe \<Rightarrow> 'w shell \<Rightarrow> int \<Rightarrow> string \<Rightarrow> (int \<Rightarrow> string) \<Rightarrow> int \<Rightarrow> 'w st
     \<Rightarrow> ((error + fpga_local_image) \<times> 'w st) option"
where
  "poll_cleared describe sh request_timeout shell_version slot2device slot s =
     poll_status describe ''cleared''
       (verify_describe sh (''sudo fpga-describe-local-image --request-timeout ''
                              @ str_int request_timeout @ '' -S '' @ str_int slot)
          (cleared_afi_row slot shell_version)
          (afidevice_row slot ''0x1042'' (slot2device slot)))
       slot s"

text \<open>
  check\_fpga\_afi\_loaded samples the slot once and asserts, field by field, that the
  sample is a loaded one without error and with the expected image.
\<close>

definition check_fpga_afi_loaded ::
  "'w describe \<Rightarrow> string \<Rightarrow> int \<Rightarrow> 'w st \<Rightarrow> (error + fpga_local_image) \<times> 'w st"
where
  "check_fpga_afi_loaded describe image_id slot s =
     (let (fpgaLocalImage, w) = describe slot (world s);
          s1 = s\<lparr>world := w\<rparr>
      in if statusName fpgaLocalImage \<noteq> ''loaded''
         then (Inl (AssertionError (image_id @ '' FPGA StatusName != loaded: ''
                      @ statusName fpgaLocalImage)), s1)
         else if statusCode fpgaLocalImage \<noteq> ''0''
         then (Inl (AssertionError (image_id @ '' status code != 0: ''
                      @ statusCode fpgaLocalImage)), s1)
         else if errorName fpgaLocalImage \<noteq> ''ok''
         then (Inl (AssertionError (image_id @ '' FPGA ErrorName != ok: ''
                      @ errorName fpgaLocalImage)), s1)
         else if errorCode fpgaLocalImage \<noteq> ''0''
         then (Inl (AssertionError (image_id @ '' ErrorCode != 0: ''
                      @ errorCode fpgaLocalImage)), s1)
         else if agfi fpgaLocalImage \<noteq> image_id
         then (Inl (AssertionError (''Expected '' @ image_id @ '', actual ''
                      @ agfi fpgaLocalImage)), s1)
         else (Inr fpgaLocalImage, s1))"

text \<open>
  Two slots to run the loops on. The world is the number of samples taken so far. The
  first slot shows busy at every sample; the second shows busy twice and is cleared from
  the third sample on, and its describe command prints the cleared rows.
\<close>

definition busy_image :: fpga_local_image where
  "busy_image = \<lparr>agfi = ''none'', statusName = ''busy'', statusCode = ''2'',
                 errorName = ''ok'', errorCode = ''0''\<rparr>"

definition cleared_image :: fpga_local_image where
  "cleared_image = \<lparr>agfi = ''none'', statusName = ''cleared'', statusCode = ''1'',
                    errorName = ''ok'', errorCode = ''0''\<rparr>"

definition stuck_describe :: "nat describe" where
  "stuck_describe slot n = (busy_image, Suc n)"

definition settling_describe :: "nat describe" where
  "settling_describe slot n = (if n < 2 then busy_image else cleared_image, Suc n)"

definition cleared_shell :: "nat shell" where
  "cleared_shell cmd n =
     (\<lparr>returncode = 0,
       stdout_bytes = cleared_afi_row 0 ''0x04261818'' @ [NL]
                       @ afidevice_row 0 ''0x1042'' ''0000:00:1d.0'' @ [NL],
       stderr_bytes = []\<rparr>, n)"

definition device0 :: "int \<Rightarrow> string" where
  "device0 slot = ''0000:00:1d.0''"

definition poll0 :: "nat st" where
  "poll0 = \<lparr>world = 0, log = [], slept = 0\<rparr>"

section \<open>Example discovery (test\_find\_vitis\_examples)\<close>

text \<open>
  What \<^verbatim>\<open>json.load\<close> returns. An object is kept as its list of members and read
  through \<open>map_of\<close>. The three operations the test applies to loaded values raise
  TypeError where Python does: \<^verbatim>\<open>k in x\<close> and \<^verbatim>\<open>len(x)\<close> on null, booleans and
  numbers, and \<^verbatim>\<open>x[k]\<close> with a string \<open>k\<close> on anything but an object.
\<close>

datatype json = JNull | JBool bool | JNum int | JStr string | JArr "json list"
  | JObj "(string \<times> json) list"

fun is_prefix :: "string \<Rightarrow> string \<Rightarrow> bool" where
  "is_prefix [] ys = True"
| "is_prefix (x # xs) [] = False"
| "is_prefix (x # xs) (y # ys) = (x = y \<and> is_prefix xs ys)"

fun str_contains :: "string \<Rightarrow> string \<Rightarrow> bool" where
  "str_contains sub [] = (sub = [])"
| "str_contains sub (c # cs) = (is_prefix sub (c # cs) \<or> str_contains sub cs)"

fun py_in :: "string \<Rightarrow> json \<Rightarrow> error + bool" where
  "py_in k (JObj kvs) = Inr (map_of kvs k \<noteq> None)"
| "py_in k (JArr xs) = Inr (List.member xs (JStr k))"
| "py_in k (JStr t) = Inr (str_contains k t)"
| "py_in k x = Inl TypeError"

fun py_getitem :: "json \<Rightarrow> string \<Rightarrow> error + json" where
  "py_getitem (JObj kvs) k = (case map_of kvs k of None \<Rightarrow> Inl KeyError | Some v \<Rightarrow> Inr v)"
| "py_getitem x k = Inl TypeError"

fun py_len :: "json \<Rightarrow> error + nat" where
  "py_len (JArr xs) = Inr (length xs)"
| "py_len (JStr t) = Inr (length t)"
| "py_len (JObj kvs) = Inr (length (remdups (map fst kvs)))"
| "py_len x = Inl TypeError"

text \<open>
  One step of \<^verbatim>\<open>os.walk\<close>, with what the loop body asks the file system about the
  directory: whether it has a Makefile, and its description.json (missing, not JSON, or
  loaded).
\<close>

datatype description_file = Missing | Malformed | Loaded json

record walk_entry =
  root :: string
  description_json :: description_file
  makefile :: bool

text \<open>
  How a block of the loop body ends: with \<^verbatim>\<open>continue\<close>, or by falling through to
  the next block with the current value of \<^verbatim>\<open>ignore\<close>.
\<close>

datatype flow = Continue | Next bool

definition containers_block :: "string \<Rightarrow> json \<Rightarrow> 'w st \<Rightarrow> (error + flow) \<times> 'w st" where
  "containers_block rt description s =
     (case py_in ''containers'' description of
        Inl e \<Rightarrow> (Inl e, s)
      | Inr True \<Rightarrow>
          (case py_getitem description ''containers'' of
             Inl e \<Rightarrow> (Inl e, s)
           | Inr cs \<Rightarrow>
               (case py_len cs of
                  Inl e \<Rightarrow> (Inl e, s)
                | Inr n \<Rightarrow>
                    if n > 1
                    then (Inr (Next True),
                          logger_info (''Ignoring '' @ rt
                            @ '' as >1 containers found in description.json.'') s)
                    else (Inr (Next False), s)))
      | Inr False \<Rightarrow>
          (Inr Continue,
           logger_info (''Ignoring '' @ rt @ '' as no containers found in description.json.'') s))"

definition aws_block :: "string \<Rightarrow> string \<Rightarrow> json \<Rightarrow> bool \<Rightarrow> 'w st \<Rightarrow> (error + flow) \<times> 'w st" where
  "aws_block k rt description ignore s =
     (case py_in k description of
        Inl e \<Rightarrow> (Inl e, s)
      | Inr False \<Rightarrow> (Inr (Next ignore), s)
      | Inr True \<Rightarrow>
          (case py_getitem description k of
             Inl e \<Rightarrow> (Inl e, s)
           | Inr v \<Rightarrow>
               (case py_in ''aws'' v of
                  Inl e \<Rightarrow> (Inl e, s)
                | Inr True \<Rightarrow>
                    (Inr Continue,
                     logger_info (''Ignoring '' @ rt @ '' as F1 device found in ndevice.'') s)
                | Inr False \<Rightarrow> (Inr (Next ignore), s))))"

definition add_unless_ignored :: "string \<Rightarrow> bool \<Rightarrow> 'w st \<Rightarrow> (error + bool) \<times> 'w st" where
  "add_unless_ignored rt ignore s =
     (if \<not> ignore then (Inr True, logger_info (''Adding: '' @ rt) s) else (Inr False, s))"

text \<open>
  The loop body for one directory; the result says whether the directory was appended to
  \<^verbatim>\<open>xilinx_examples_makefiles\<close>.
\<close>

definition visit :: "walk_entry \<Rightarrow> 'w st \<Rightarrow> (error + bool) \<times> 'w st" where
  "visit e s =
     (if description_json e \<noteq> Missing \<and> makefile e then
        (case description_json e of
           Missing \<Rightarrow> (Inr False, s)
         | Malformed \<Rightarrow> (Inl JSONDecodeError, s)
         | Loaded description \<Rightarrow>
             (case containers_block (root e) description s of
                (Inl err, s1) \<Rightarrow> (Inl err, s1)
              | (Inr Continue, s1) \<Rightarrow> (Inr False, s1)
              | (Inr (Next ignore1), s1) \<Rightarrow>
                  (case aws_block ''ndevice'' (root e) description ignore1 s1 of
                     (Inl err, s2) \<Rightarrow> (Inl err, s2)
                   | (Inr Continue, s2) \<Rightarrow> (Inr False, s2)
                   | (Inr (Next ignore2), s2) \<Rightarrow>
                       (case aws_block ''platform_blacklist'' (root e) description ignore2 s2 of
                          (Inl err, s3) \<Rightarrow> (Inl err, s3)
                        | (Inr Continue, s3) \<Rightarrow> (Inr False, s3)
                        | (Inr (Next ignore3), s3) \<Rightarrow> add_unless_ignored (root e) ignore3 s3))))
      else add_unless_ignored (root e) True
             (logger_warn (''Ignoring: '' @ root e @ '' as no Makefile/description.json exist'') s))"

fun walk_loop :: "walk_entry list \<Rightarrow> string list \<Rightarrow> 'w st \<Rightarrow> (error + string list) \<times> 'w st" where
  "walk_loop [] xilinx_examples_makefiles s = (Inr xilinx_examples_makefiles, s)"
| "walk_loop (e # es) xilinx_examples_makefiles s =
     (case visit e s of
        (Inl err, s1) \<Rightarrow> (Inl err, s1)
      | (Inr added, s1) \<Rightarrow>
          walk_loop es
            (if added then xilinx_examples_makefiles @ [root e] else xilinx_examples_makefiles) s1)"

text \<open>
  \<^verbatim>\<open>example_path.replace('/', '__').capitalize()\<close>, on ASCII path names: the first
  character in upper case, the others in lower case.
\<close>

definition str_replace_char :: "char \<Rightarrow> string \<Rightarrow> string \<Rightarrow> string" where
  "str_replace_char c repl t = concat (map (\<lambda>x. if x = c then repl else [x]) t)"

definition char_upper :: "char \<Rightarrow> char" where
  "char_upper c =
     (let n = (of_char c :: nat) in if 97 \<le> n \<and> n \<le> 122 then char_of (n - 32) else c)"

definition char_lower :: "char \<Rightarrow> char" where
  "char_lower c =
     (let n = (of_char c :: nat) in if 65 \<le> n \<and> n \<le> 90 then char_of (n + 32) else c)"

fun str_capitalize :: "string \<Rightarrow> string" where
  "str_capitalize [] = []"
| "str_capitalize (c # cs) = char_upper c # map char_lower cs"

definition example_test_class :: "string \<Rightarrow> string" where
  "example_test_class example_path = str_capitalize (str_replace_char CHR ''/'' ''__'' example_path)"

definition example_map :: "string list \<Rightarrow> (string \<rightharpoonup> string)" where
  "example_map paths = fold (\<lambda>example_path m. m(example_test_class example_path \<mapsto> example_path))
                         paths Map.empty"

text \<open>
  The test up to the map it dumps into both list files. \<open>relpath\<close> stands for
  \<^verbatim>\<open>os.path.relpath(full_path, self.WORKSPACE)\<close>; the examples directory is given by
  whether it exists, its listing and its walk.
\<close>

record examples_dir =
  dir_exists :: bool
  dir_listing :: "string list"
  dir_walk :: "walk_entry list"

definition test_find_example_makefiles ::
  "(string \<Rightarrow> string) \<Rightarrow> string \<Rightarrow> examples_dir \<Rightarrow> 'w st \<Rightarrow> (error + (string \<rightharpoonup> string)) \<times> 'w st"
where
  "test_find_example_makefiles relpath xilinx_vitis_examples_dir fs s =
     (if \<not> dir_exists fs
      then (Inl (AssertionError (''The Xilinx Vitis example dir does not exist: ''
                   @ xilinx_vitis_examples_dir)), s)
      else if dir_listing fs = []
      then (Inl (AssertionError ''Xilinx Vitis example submodule not cloned or does not exist''), s)
      else
        (case walk_loop (dir_walk fs) [] s of
           (Inl err, s1) \<Rightarrow> (Inl err, s1)
         | (Inr xilinx_examples_makefiles, s1) \<Rightarrow>
             if xilinx_examples_makefiles = []
             then (Inl (AssertionError (''Could not find any Xilinx Vitis example in ''
                          @ xilinx_vitis_examples_dir)), s1)
             else (Inr (example_map (map relpath xilinx_examples_makefiles)), s1)))"

text \<open>
  An examples directory with three examples: one with one container, one whose
  description has no containers, and one with two containers.
\<close>

definition one_container :: walk_entry where
  "one_container = \<lparr>root = ''/ws/ex/a'',
     description_json = Loaded (JObj [(''name'', JStr ''a''), (''containers'', JArr [JObj []])]),
     makefile = True\<rparr>"

definition no_containers :: walk_entry where
  "no_containers = \<lparr>root = ''/ws/ex/b'',
     description_json = Loaded (JObj [(''name'', JStr ''b'')]),
     makefile = True\<rparr>"

definition two_containers :: walk_entry where
  "two_containers = \<lparr>root = ''/ws/ex/c'',
     description_json = Loaded (JObj [(''containers'', JArr [JObj [], JObj []])]),
     makefile = True\<rparr>"

definition three_examples :: examples_dir where
  "three_examples = \<lparr>dir_exists = True, dir_listing = [''a'', ''b'', ''c''],
     dir_walk = [one_container, no_containers, two_containers]\<rparr>"

definition below_ws :: "string \<Rightarrow> string" where
  "below_ws full_path = drop 4 full_path"

section \<open>The slot tools, as far as the specification describes them\<close>

text \<open>
  The tools the tests drive (fpga-describe-local-image-slots, fpga-describe-local-image,
  fpga-load-local-image, fpga-clear-local-image) are not among the modelled sources. What
  follows is their behaviour as the specification words it, printed in the very rows and
  header lines that the tests compare with.
\<close>

definition unlines :: "string list \<Rightarrow> string" where
  "unlines ls = concat (map (\<lambda>l. l @ [NL]) ls)"

text \<open>
  Modelled from the spec: the record groups of the describe tools' output, which the
  absent tools print. A group is the AFI row of a slot or the AFIDEVICE rows of a slot;
  with the header flag each group is preceded by one header line, the AFI header for an
  AFI group and the AFIDEVICE header for a device group.
\<close>

datatype record_group = AfiGroup "string list" | DeviceGroup "string list"

text \<open>
  Modelled from the spec: the header line of a record group in the absent describe tools'
  output.
\<close>

fun group_header :: "record_group \<Rightarrow> string" where
  "group_header (AfiGroup rows) = afi_header"
| "group_header (DeviceGroup rows) = afidevice_header"

text \<open>
  Modelled from the spec: the rows of a record group in the absent describe tools' output.
\<close>

fun group_rows :: "record_group \<Rightarrow> string list" where
  "group_rows (AfiGroup rows) = rows"
| "group_rows (DeviceGroup rows) = rows"

text \<open>
  Modelled from the spec: the lines the absent describe tools print for one record group,
  one header line before the rows when the header flag is set.
\<close>

definition group_lines :: "bool \<Rightarrow> record_group \<Rightarrow> string list" where
  "group_lines header g = (if header then [group_header g] else []) @ group_rows g"

text \<open>
  Modelled from the spec: the stdout text of the absent describe tools, the lines of the
  groups in order, each line ended by a newline.
\<close>

definition describe_text :: "bool \<Rightarrow> record_group list \<Rightarrow> string" where
  "describe_text header groups = unlines (concat (map (group_lines header) groups))"

text \<open>
  Modelled from the spec: the slots of a host as the absent describe tools see them, each
  settled (cleared, or loaded with an image), with its device id and the addresses of its
  primary and mailbox physical functions.
\<close>

record fpga_hw =
  num_slots :: nat
  shell_version :: string
  slot2image :: "int \<Rightarrow> string option"
  slot2device_id :: "int \<Rightarrow> string"
  slot2device :: "int \<Rightarrow> string"
  slot2mbox_device :: "int \<Rightarrow> string"

text \<open>
  Modelled from the spec: the AFI row the absent describe tool prints for a settled slot,
  status cleared with code 1 or status loaded with code 0, error ok with code 0.
\<close>

definition afi_row_of :: "fpga_hw \<Rightarrow> int \<Rightarrow> string" where
  "afi_row_of hw slot =
     (case slot2image hw slot of
        None \<Rightarrow> cleared_afi_row slot (shell_version hw)
      | Some image_id \<Rightarrow> loaded_afi_row slot image_id (shell_version hw))"

text \<open>
  Modelled from the spec: the device group of a slot in the absent describe tools'
  output, the primary device row first and, with the mailbox flag, the mailbox device row
  of the same slot right after it.
\<close>

definition device_group :: "bool \<Rightarrow> fpga_hw \<Rightarrow> int \<Rightarrow> record_group" where
  "device_group mbox hw slot =
     DeviceGroup ([afidevice_row slot (slot2device_id hw slot) (slot2device hw slot)]
                  @ (if mbox then [afidevice_row slot ''0x1041'' (slot2mbox_device hw slot)]
                     else []))"

text \<open>
  Modelled from the spec: what the absent tool fpga-describe-local-image-slots prints,
  one device group per slot in slot order, and exits with code 0.
\<close>

definition describe_local_image_slots :: "bool \<Rightarrow> bool \<Rightarrow> fpga_hw shell" where
  "describe_local_image_slots header mbox cmd hw =
     (\<lparr>returncode = 0,
       stdout_bytes = describe_text header
                       (map (\<lambda>i. device_group mbox hw (int i)) [0..<num_slots hw]),
       stderr_bytes = []\<rparr>, hw)"

text \<open>
  Modelled from the spec: what the absent tool fpga-describe-local-image prints for one
  slot, the AFI group and then the device group, and exits with code 0.
\<close>

definition describe_local_image :: "bool \<Rightarrow> int \<Rightarrow> fpga_hw shell" where
  "describe_local_image header slot cmd hw =
     (\<lparr>returncode = 0,
       stdout_bytes = describe_text header
                       [AfiGroup [afi_row_of hw slot], device_group False hw slot],
       stderr_bytes = []\<rparr>, hw)"

text \<open>
  Modelled from the spec: whether the rows of a host can be printed one per line, that is
  whether its strings are free of newlines; the absent tools print nothing else.
\<close>

definition one_line_slot :: "fpga_hw \<Rightarrow> int \<Rightarrow> bool" where
  "one_line_slot hw slot =
     (NL \<notin> set (case slot2image hw slot of None \<Rightarrow> [] | Some image_id \<Rightarrow> image_id)
      \<and> NL \<notin> set (slot2device_id hw slot)
      \<and> NL \<notin> set (slot2device hw slot)
      \<and> NL \<notin> set (slot2mbox_device hw slot))"

text \<open>
  Modelled from the spec: the same for a whole host, as the absent tools print it.
\<close>

definition one_line_fields :: "fpga_hw \<Rightarrow> bool" where
  "one_line_fields hw =
     (NL \<notin> set (shell_version hw)
      \<and> list_all (\<lambda>i. one_line_slot hw (int i)) [0..<num_slots hw])"

text \<open>A host with two cleared slots.\<close>

definition two_slot_host :: fpga_hw where
  "two_slot_host = \<lparr>num_slots = 2, shell_version = ''0x04261818'',
     slot2image = (\<lambda>slot. None), slot2device_id = (\<lambda>slot. ''0x1042''),
     slot2device = (\<lambda>slot. if slot = 0 then ''0000:00:0f.0'' else ''0000:00:11.0''),
     slot2mbox_device = (\<lambda>slot. if slot = 0 then ''0000:00:10.0'' else ''0000:00:12.0'')\<rparr>"

definition host0 :: "fpga_hw st" where
  "host0 = \<lparr>world = two_slot_host, log = [], slept = 0\<rparr>"

text \<open>
  Modelled from the spec: the slot state machine that the absent load and clear tools
  act on, cleared, loading, loaded, clearing, and cleared again. The number of requests
  the slot has received is kept beside the state.
\<close>

datatype slot_state = SlotCleared | SlotLoading | SlotLoaded | SlotClearing

text \<open>
  Modelled from the spec: the two asynchronous requests of the absent load and clear
  tools.
\<close>

datatype async_op = Load | Clear

text \<open>
  Modelled from the spec: a slot as the absent load and clear tools see it.
\<close>

record slot_hw =
  state :: slot_state
  requests :: nat

text \<open>
  Modelled from the spec: a slot is mid-transition while the absent tools' request on it
  has not completed, that is while it is loading or clearing.
\<close>

definition mid_transition :: "slot_state \<Rightarrow> bool" where
  "mid_transition x = (x = SlotLoading \<or> x = SlotClearing)"

text \<open>
  Modelled from the spec: the answer of the absent tools fpga-load-local-image and
  fpga-clear-local-image to an asynchronous (-A) request. A slot that is mid-transition
  refuses the request: exit code 3, first output line "Error: (3) busy" (whatever the
  tool prints after that line is \<open>detail\<close>), slot unchanged. A settled slot takes it:
  the tool returns at once with exit code 0 and an empty line, and the slot is in
  transition.
\<close>

definition async_request :: "string \<Rightarrow> async_op \<Rightarrow> slot_hw shell" where
  "async_request detail operation cmd hw =
     (if mid_transition (state hw)
      then (\<lparr>returncode = 3, stdout_bytes = ''Error: (3) busy'' @ [NL] @ detail, stderr_bytes = []\<rparr>,
            hw\<lparr>requests := Suc (requests hw)\<rparr>)
      else (\<lparr>returncode = 0, stdout_bytes = [], stderr_bytes = []\<rparr>,
            hw\<lparr>state := (case operation of Load \<Rightarrow> SlotLoading | Clear \<Rightarrow> SlotClearing),
               requests := Suc (requests hw)\<rparr>))"

definition slot0 :: "slot_hw st" where
  "slot0 = \<lparr>world = \<lparr>state = SlotCleared, requests = 0\<rparr>, log = [], slept = 0\<rparr>"

section \<open>Facts about splitting\<close>

lemma str_split_not_Nil: "str_split sep s \<noteq> []"
  by (induction s) (auto split: list.splits)

lemma length_str_split: "length (str_split sep s) = Suc (length (filter (\<lambda>c. c = sep) s))"
proof (induction s)
  case Nil
  show ?case by simp
next
  case (Cons c cs)
  then show ?case
    by (cases "str_split sep cs") auto
qed

lemma str_split_no_sep: "sep \<notin> set s \<Longrightarrow> str_split sep s = [s]"
  by (induction s) auto

lemma str_split_append_sep:
  "sep \<notin> set a \<Longrightarrow> str_split sep (a @ sep # r) = a # str_split sep r"
  by (induction a) auto

lemma str_split_snoc_sep: "str_split sep (s @ [sep]) = str_split sep s @ [[]]"
proof (induction s)
  case Nil
  show ?case by simp
next
  case (Cons c cs)
  show ?case
  proof (cases "str_split sep cs")
    case Nil
    then show ?thesis using str_split_not_Nil [of sep cs] by simp
  next
    case (Cons l ls)
    then show ?thesis using Cons.IH by simp
  qed
qed

section \<open>What run\_cmd does\<close>

text \<open>
  The streams are \<^verbatim>\<open>bytes\<close>, so the first split raises: every call ends in
  TypeError, after the process has run and before anything but the "Running" record is
  logged.
\<close>

lemma run_cmd_raises:
  "run_cmd sh cmd echo check s =
     (Inl TypeError,
      s\<lparr>world := snd (sh cmd (world s)),
        log := log s @ (if echo then [(INFO, ''Running: '' @ cmd)] else [])\<rparr>)"
  by (simp add: run_cmd_def logger_info_def Let_def split: prod.splits)

lemma run_cmd_outcome: "fst (run_cmd sh cmd echo check s) = Inl TypeError"
  by (simp add: run_cmd_raises)

lemma run_cmd_world: "world (snd (run_cmd sh cmd echo check s)) = snd (sh cmd (world s))"
  by (simp add: run_cmd_raises)

lemma bytes_repr_example:
  "bytes_repr (''it's'' @ [NL]) = ''b'' @ [CHR 0x22] @ ''it's'' @ [CHR 0x5C] @ ''n'' @ [CHR 0x22]"
  by (simp add: bytes_repr_def escape_byte_def Let_def)

section \<open>Claims about run\_cmd\<close>

text \<open>
  C1 (as the code has it). run\_cmd signals no ExecutionFailure, for no command, no flags
  and no exit code, a non-zero exit under check included: it has no raise statement of
  its own. It runs the command once, without retry: the world after the call is the world
  the one process left.
\<close>

theorem run_cmd_signals_no_execution_failure:
  "fst (run_cmd sh cmd echo check s) \<noteq> Inl (ExecutionFailure c rc out err)
   \<and> world (snd (run_cmd sh cmd echo check s)) = snd (sh cmd (world s))"
  by (simp add: run_cmd_raises)

text \<open>
  C1, the claim as stated, fails: for a command that exits with code 3 under check, what
  run\_cmd signals is not an ExecutionFailure with the command, the exit code and the
  streams, but the TypeError of the split.
\<close>

theorem run_cmd_check_failure_counterexample:
  "fst (run_cmd (const_shell busy_reply) ''fpga-clear-local-image -S 0 -A'' True True st0)
     = Inl TypeError
   \<and> fst (run_cmd (const_shell busy_reply) ''fpga-clear-local-image -S 0 -A'' True True st0)
     \<noteq> Inl (ExecutionFailure ''fpga-clear-local-image -S 0 -A'' 3
                (''Error: (3) busy'' @ [NL] @ ''busy'' @ [NL]) [])"
  by (simp add: run_cmd_raises)

text \<open>
  C3 fails on the code: a process that exits cleanly, with one line on stdout and nothing
  on stderr, gives the caller no line lists. run\_cmd raises TypeError at the split of
  stdout and leaves the state as it was.
\<close>

theorem run_cmd_clean_exit_raises:
  "run_cmd (const_shell clean_reply) ''true'' False True st0 = (Inl TypeError, st0)"
  by (simp add: run_cmd_raises const_shell_def st0_def)

text \<open>
  C8 fails on the code: for a process without any output run\_cmd returns no lists whose
  first element could be read; it raises TypeError.
\<close>

theorem run_cmd_no_output_raises:
  "fst (run_cmd (const_shell \<lparr>returncode = 0, stdout_bytes = [], stderr_bytes = []\<rparr>)
          ''true'' False False st0)
     = Inl TypeError"
  by (simp add: run_cmd_raises)


section \<open>Claims about the slot operations\<close>

text \<open>
  A caller of run\_cmd gets the TypeError before it can look at the exit code:
  fpga\_clear\_local\_image raises it in place of its own AssertionError.
\<close>

lemma fpga_clear_local_image_raises:
  "fst (fpga_clear_local_image sh slot request_timeout sync_timeout as_root s) = Inl TypeError"
  by (simp add: fpga_clear_local_image_def Let_def run_cmd_raises)

lemma re_sub_char_empty: "re_sub_char c [] s = filter (\<lambda>x. x \<noteq> c) s"
  by (induction s) (simp_all add: re_sub_char_def)

lemma re_sub_char_empty_idem: "re_sub_char c [] (re_sub_char c [] s) = re_sub_char c [] s"
  by (simp add: re_sub_char_empty)

text \<open>
  C10. fpga\_set\_virtual\_dip\_switch takes every dash out of its value before it builds
  the command line: the one command it gives the shell ends in the value without its
  dashes, and a call with the dash-free form of a value is the same call, with the same
  command, the same result and the same state afterwards.
\<close>

theorem fpga_set_virtual_dip_switch_ignores_dashes:
  "fpga_set_virtual_dip_switch sh (re_sub_char CHR ''-'' [] value) slot as_root s
     = fpga_set_virtual_dip_switch sh value slot as_root s
   \<and> world (snd (fpga_set_virtual_dip_switch (recording_shell p) value slot as_root s))
     = world s @ [exec_as_user as_root ''fpga-set-virtual-dip-switch'' @ '' -S '' @ str_int slot
                    @ '' -D '' @ filter (\<lambda>c. c \<noteq> CHR ''-'') value]
   \<and> world (snd (fpga_set_virtual_dip_switch (recording_shell p)
                    (filter (\<lambda>c. c \<noteq> CHR ''-'') value) slot as_root s))
     = world (snd (fpga_set_virtual_dip_switch (recording_shell p) value slot as_root s))"
proof -
  have same: "fpga_set_virtual_dip_switch sh (re_sub_char CHR ''-'' [] value) slot as_root s
                = fpga_set_virtual_dip_switch sh value slot as_root s" for sh :: "'a shell" and s
    by (simp add: fpga_set_virtual_dip_switch_def re_sub_char_empty_idem)
  have issued: "world (snd (fpga_set_virtual_dip_switch (recording_shell p) v slot as_root s))
                  = world s @ [exec_as_user as_root ''fpga-set-virtual-dip-switch'' @ '' -S ''
                                 @ str_int slot @ '' -D '' @ filter (\<lambda>c. c \<noteq> CHR ''-'') v]" for v
    by (simp add: fpga_set_virtual_dip_switch_def Let_def re_sub_char_empty recording_shell_def
          run_cmd_raises)
  show ?thesis
    using same issued by simp
qed

section \<open>Claims about the poll loops\<close>

lemma poll_status_Some_observed:
  assumes "poll_status describe target verify slot s = Some y"
  shows "\<exists>n. statusName (fst (describe slot (sample_world describe slot n (world s)))) = target"
proof (rule poll_status.raw_induct
        [where P = "\<lambda>describe target verify slot s y.
                      \<exists>n. statusName (fst (describe slot
                             (sample_world describe slot n (world s)))) = target",
         OF _ assms])
  fix f :: "'a describe \<Rightarrow> string \<Rightarrow> ('a st \<Rightarrow> (error + unit) \<times> 'a st) \<Rightarrow> int \<Rightarrow> 'a st
              \<Rightarrow> ((error + fpga_local_image) \<times> 'a st) option"
  fix describe :: "'a describe" and target verify slot s y
  assume IH: "\<And>describe target verify slot s y. f describe target verify slot s = Some y \<Longrightarrow>
                 \<exists>n. statusName (fst (describe slot
                        (sample_world describe slot n (world s)))) = target"
  assume body: "(let (fpgaLocalImage, w) = describe slot (world s);
          s1 = logger_info (''status='' @ statusName fpgaLocalImage) (s\<lparr>world := w\<rparr>)
      in if statusName fpgaLocalImage \<noteq> target
         then f describe target verify slot (time_sleep 1 s1)
         else (case verify s1 of
                 (Inl e, s2) \<Rightarrow> Some (Inl e, s2)
               | (Inr u, s2) \<Rightarrow> Some (Inr fpgaLocalImage, s2))) = Some y"
  show "\<exists>n. statusName (fst (describe slot (sample_world describe slot n (world s)))) = target"
  proof (cases "statusName (fst (describe slot (world s))) = target")
    case True
    then have "statusName (fst (describe slot (sample_world describe slot 0 (world s)))) = target"
      by simp
    then show ?thesis by blast
  next
    case False
    with body have "f describe target verify slot
        (time_sleep 1 (logger_info (''status='' @ statusName (fst (describe slot (world s))))
                        (s\<lparr>world := snd (describe slot (world s))\<rparr>))) = Some y"
      by (auto simp: Let_def split: prod.splits)
    from IH [OF this] obtain n where
      "statusName (fst (describe slot (sample_world describe slot n
          (snd (describe slot (world s)))))) = target"
      by (auto simp: time_sleep_def logger_info_def)
    then have
      "statusName (fst (describe slot (sample_world describe slot (Suc n) (world s)))) = target"
      by simp
    then show ?thesis by blast
  qed
qed

lemma poll_status_never:
  assumes "\<And>n. statusName (fst (describe slot (sample_world describe slot n (world s)))) \<noteq> target"
  shows "poll_status describe target verify slot s = None"
  using assms poll_status_Some_observed [of describe target verify slot s]
  by (cases "poll_status describe target verify slot s") auto

lemma poll_status_first:
  assumes "\<forall>k<n. statusName (fst (describe slot (sample_world describe slot k (world s)))) \<noteq> target"
    and "statusName (fst (describe slot (sample_world describe slot n (world s)))) = target"
  shows "poll_status describe target verify slot s =
           Some (case verify
                        (s\<lparr>world := snd (describe slot (sample_world describe slot n (world s))),
                           log := log s @ map (\<lambda>k. (INFO, ''status='' @ statusName
                                    (fst (describe slot (sample_world describe slot k (world s))))))
                                  [0..<Suc n],
                           slept := slept s + n\<rparr>) of
                   (Inl e, s2) \<Rightarrow> (Inl e, s2)
                 | (Inr u, s2) \<Rightarrow>
                     (Inr (fst (describe slot (sample_world describe slot n (world s)))), s2))"
  using assms
proof (induction n arbitrary: s)
  case 0
  then show ?case
    by (subst poll_status.simps)
       (simp add: Let_def case_prod_beta logger_info_def split: prod.splits sum.splits)
next
  case (Suc n)
  let ?m0 = "''status='' @ statusName (fst (describe slot (world s)))"
  let ?s1 = "time_sleep (Suc 0) (logger_info ?m0 (s\<lparr>world := snd (describe slot (world s))\<rparr>))"
  from Suc.prems(1) have first: "statusName (fst (describe slot (world s))) \<noteq> target"
    by (metis sample_world.simps(1) zero_less_Suc)
  have step: "poll_status describe target verify slot s
                = poll_status describe target verify slot ?s1"
    using first by (subst poll_status.simps) (simp add: Let_def case_prod_beta)
  have w: "world ?s1 = snd (describe slot (world s))"
    and l: "log ?s1 = log s @ [(INFO, ?m0)]"
    and t: "slept ?s1 = Suc (slept s)"
    by (simp_all add: time_sleep_def logger_info_def)
  have shift: "sample_world describe slot k (world ?s1)
                 = sample_world describe slot (Suc k) (world s)" for k
    by (simp add: time_sleep_def logger_info_def)
  have before: "\<forall>k<n. statusName (fst (describe slot (sample_world describe slot k (world ?s1))))
                   \<noteq> target"
  proof (intro allI impI)
    fix k
    assume "k < n"
    then have "Suc k < Suc n" by simp
    with Suc.prems(1) have
      "statusName (fst (describe slot (sample_world describe slot (Suc k) (world s)))) \<noteq> target"
      by blast
    then show "statusName (fst (describe slot (sample_world describe slot k (world ?s1))))
                 \<noteq> target"
      by (simp add: time_sleep_def logger_info_def)
  qed
  have at: "statusName (fst (describe slot (sample_world describe slot n (world ?s1)))) = target"
    using Suc.prems(2) by (simp add: time_sleep_def logger_info_def)
  have state: "?s1\<lparr>world := snd (describe slot (sample_world describe slot n (world ?s1))),
                  log := log ?s1 @ map (\<lambda>k. (INFO, ''status='' @ statusName
                           (fst (describe slot (sample_world describe slot k (world ?s1))))))
                         [0..<Suc n],
                  slept := slept ?s1 + n\<rparr>
               = s\<lparr>world := snd (describe slot (sample_world describe slot (Suc n) (world s))),
                   log := log s @ map (\<lambda>k. (INFO, ''status='' @ statusName
                            (fst (describe slot (sample_world describe slot k (world s))))))
                          [0..<Suc (Suc n)],
                   slept := slept s + Suc n\<rparr>"
    unfolding shift l t
    by (subst (2) map_upt_Suc) (simp add: time_sleep_def logger_info_def)
  show ?case
    apply (subst step)
    apply (subst Suc.IH [OF before at])
    apply (subst state)
    apply (subst shift)
    apply (rule refl)
    done
qed

text \<open>
  C2 (as the code has it). The poll loop has no iteration cap and no PollTimeout. For a
  slot whose sampled statusName never is the target value the loop never returns, so it
  returns no record at all. Otherwise it leaves the loop at the first sample that shows
  the target value, after one second of sleep and one status record for every earlier
  sample, and what it hands on is the outcome of the verification in that state: its
  error, or else that first matching sample, never an earlier one.
\<close>

theorem poll_status_returns_only_on_target:
  "((\<forall>n. statusName (fst (describe slot (sample_world describe slot n (world s)))) \<noteq> target)
      \<longrightarrow> poll_status describe target verify slot s = None)
   \<and> ((\<forall>k<n. statusName (fst (describe slot (sample_world describe slot k (world s)))) \<noteq> target)
        \<and> statusName (fst (describe slot (sample_world describe slot n (world s)))) = target
      \<longrightarrow> poll_status describe target verify slot s =
           Some (case verify
                        (s\<lparr>world := snd (describe slot (sample_world describe slot n (world s))),
                           log := log s @ map (\<lambda>k. (INFO, ''status='' @ statusName
                                    (fst (describe slot (sample_world describe slot k (world s))))))
                                  [0..<Suc n],
                           slept := slept s + n\<rparr>) of
                   (Inl e, s2) \<Rightarrow> (Inl e, s2)
                 | (Inr u, s2) \<Rightarrow>
                     (Inr (fst (describe slot (sample_world describe slot n (world s)))), s2)))"
proof (intro conjI impI)
  assume "\<forall>n. statusName (fst (describe slot (sample_world describe slot n (world s)))) \<noteq> target"
  then show "poll_status describe target verify slot s = None"
    by (simp add: poll_status_never)
next
  assume "(\<forall>k<n. statusName (fst (describe slot (sample_world describe slot k (world s)))) \<noteq> target)
        \<and> statusName (fst (describe slot (sample_world describe slot n (world s)))) = target"
  then show "poll_status describe target verify slot s =
           Some (case verify
                        (s\<lparr>world := snd (describe slot (sample_world describe slot n (world s))),
                           log := log s @ map (\<lambda>k. (INFO, ''status='' @ statusName
                                    (fst (describe slot (sample_world describe slot k (world s))))))
                                  [0..<Suc n],
                           slept := slept s + n\<rparr>) of
                   (Inl e, s2) \<Rightarrow> (Inl e, s2)
                 | (Inr u, s2) \<Rightarrow>
                     (Inr (fst (describe slot (sample_world describe slot n (world s)))), s2))"
    using poll_status_first [of n describe slot s target verify] by blast
qed

lemma settling_samples:
  "sample_world settling_describe 0 0 0 = 0" "sample_world settling_describe 0 1 0 = 1"
  "sample_world settling_describe 0 2 0 = 2"
  by (simp_all add: settling_describe_def numeral_2_eq_2)

lemma settling_log:
  "map (\<lambda>k. (INFO, ''status='' @ statusName
               (fst (settling_describe 0 (sample_world settling_describe 0 k 0)))))
     [0..<Suc 2]
   = [(INFO, ''status=busy''), (INFO, ''status=busy''), (INFO, ''status=cleared'')]"
proof -
  have "[0..<Suc 2] = [0, 1, 2]" by (simp add: upt_conv_Cons)
  then show ?thesis
    by (simp add: settling_samples settling_describe_def busy_image_def cleared_image_def)
qed

lemma cleared_describe_cmd:
  "''sudo fpga-describe-local-image --request-timeout '' @ str_int 6000 @ '' -S '' @ str_int 0
     = ''sudo fpga-describe-local-image --request-timeout 6000 -S 0''"
  by (simp add: str_int_def str_nat.simps digit_char_def)

lemma verify_describe_raises:
  "verify_describe sh cmd row0 row1 s
     = (Inl TypeError,
        s\<lparr>world := snd (sh cmd (world s)), log := log s @ [(INFO, ''Running: '' @ cmd)]\<rparr>)"
  by (simp add: verify_describe_def run_cmd_raises)

text \<open>
  The loop of test\_clear\_local\_image on the slot that stays busy and on the slot that is
  cleared at its third sample: the first run has no value; the second leaves the loop at
  the third sample, after two seconds of sleep, with the error that the describe command
  of its verification ends in.
\<close>

theorem poll_status_returns_only_on_target_witness:
  "poll_cleared stuck_describe cleared_shell 6000 ''0x04261818'' device0 0 poll0 = None
   \<and> poll_cleared settling_describe cleared_shell 6000 ''0x04261818'' device0 0 poll0
      = Some (Inl TypeError,
              \<lparr>world = 3,
               log = [(INFO, ''status=busy''), (INFO, ''status=busy''), (INFO, ''status=cleared''),
                      (INFO, ''Running: sudo fpga-describe-local-image --request-timeout 6000 -S 0'')],
               slept = 2\<rparr>)"
proof -
  have stuck: "\<forall>n. statusName (fst (stuck_describe 0
                    (sample_world stuck_describe 0 n (world poll0)))) \<noteq> ''cleared''"
    by (simp add: stuck_describe_def busy_image_def)
  have w0: "sample_world settling_describe 0 0 (world poll0) = 0"
    and w1: "sample_world settling_describe 0 1 (world poll0) = 1"
    and w2: "sample_world settling_describe 0 2 (world poll0) = 2"
    by (simp_all add: settling_describe_def poll0_def numeral_2_eq_2)
  have before: "\<forall>k<2. statusName (fst (settling_describe 0
                   (sample_world settling_describe 0 k (world poll0)))) \<noteq> ''cleared''"
  proof (intro allI impI)
    fix k :: nat
    assume "k < 2"
    then have "k = 0 \<or> k = 1" by auto
    then show "statusName (fst (settling_describe 0
                 (sample_world settling_describe 0 k (world poll0)))) \<noteq> ''cleared''"
      using w0 w1 by (auto simp: settling_describe_def busy_image_def)
  qed
  have at: "statusName (fst (settling_describe 0
              (sample_world settling_describe 0 2 (world poll0)))) = ''cleared''"
    by (simp add: w2 settling_describe_def cleared_image_def)
  have none: "poll_cleared stuck_describe cleared_shell 6000 ''0x04261818'' device0 0 poll0 = None"
    unfolding poll_cleared_def
    using poll_status_returns_only_on_target
            [where describe = stuck_describe and slot = 0 and s = poll0
               and target = "''cleared''"] stuck
    by blast
  have "poll_status settling_describe ''cleared''
          (verify_describe cleared_shell
             (''sudo fpga-describe-local-image --request-timeout '' @ str_int 6000 @ '' -S ''
                @ str_int 0)
             (cleared_afi_row 0 ''0x04261818'') (afidevice_row 0 ''0x1042'' (device0 0)))
          0 poll0
        = Some (case verify_describe cleared_shell
                       (''sudo fpga-describe-local-image --request-timeout '' @ str_int 6000
                          @ '' -S '' @ str_int 0)
                       (cleared_afi_row 0 ''0x04261818'') (afidevice_row 0 ''0x1042'' (device0 0))
                       (poll0\<lparr>world := snd (settling_describe 0
                                          (sample_world settling_describe 0 2 (world poll0))),
                          log := log poll0 @ map (\<lambda>k. (INFO, ''status='' @ statusName
                                   (fst (settling_describe 0
                                          (sample_world settling_describe 0 k (world poll0))))))
                                 [0..<Suc 2],
                          slept := slept poll0 + 2\<rparr>) of
                  (Inl e, s2) \<Rightarrow> (Inl e, s2)
                | (Inr u, s2) \<Rightarrow>
                    (Inr (fst (settling_describe 0
                                (sample_world settling_describe 0 2 (world poll0)))), s2))"
    using poll_status_returns_only_on_target
            [where describe = settling_describe and slot = 0 and s = poll0
               and target = "''cleared''" and n = 2] before at
    by blast
  then have "poll_cleared settling_describe cleared_shell 6000 ''0x04261818'' device0 0 poll0
      = Some (Inl TypeError,
              \<lparr>world = 3,
               log = [(INFO, ''status=busy''), (INFO, ''status=busy''), (INFO, ''status=cleared''),
                      (INFO, ''Running: sudo fpga-describe-local-image --request-timeout 6000 -S 0'')],
               slept = 2\<rparr>)"
    unfolding poll_cleared_def poll0_def
    by (simp only: st.simps settling_log settling_samples cleared_describe_cmd
          verify_describe_raises)
       (simp add: settling_describe_def cleared_shell_def)
  with none show ?thesis by simp
qed

text \<open>
  C2, the claim as stated, fails: on the slot that shows busy at every sample the loop of
  test\_clear\_local\_image does not terminate, after no number of iterations, and so
  signals nothing.
\<close>

theorem poll_cleared_stuck_counterexample:
  "poll_cleared stuck_describe cleared_shell 6000 ''0x04261818'' device0 0 poll0 = None"
  unfolding poll_cleared_def
  by (rule poll_status_never) (simp add: stuck_describe_def busy_image_def)

section \<open>Claims about example discovery\<close>

lemma visit_no_containers:
  assumes "description_json e = Loaded (JObj kvs)" and "makefile e"
    and "map_of kvs ''containers'' = None"
  shows "fst (visit e s) = Inr False"
  using assms by (simp add: visit_def containers_block_def)

lemma aws_block_keeps_ignore:
  "aws_block k rt d ig s = (Inr (Next ig'), s') \<Longrightarrow> ig' = ig"
  by (auto simp: aws_block_def split: sum.splits bool.splits if_splits)

lemma visit_many_containers:
  assumes "description_json e = Loaded (JObj kvs)" and "makefile e"
    and "map_of kvs ''containers'' = Some (JArr cs)" and "1 < length cs"
  shows "fst (visit e s) \<noteq> Inr True"
proof -
  have c: "containers_block (root e) (JObj kvs) s
             = (Inr (Next True), logger_info (''Ignoring '' @ root e
                            @ '' as >1 containers found in description.json.'') s)"
    using assms by (simp add: containers_block_def)
  show ?thesis
    using assms(1,2) c
    by (auto simp: visit_def add_unless_ignored_def split: prod.splits sum.splits flow.splits
          dest!: aws_block_keeps_ignore)
qed

lemma walk_loop_added:
  "walk_loop es acc (s::'a st) = (Inr ms, s') \<Longrightarrow> p \<in> set ms \<Longrightarrow>
     p \<in> set acc \<or> (\<exists>x \<in> set es. root x = p \<and> (\<exists>t::'a st. fst (visit x t) = Inr True))"
proof (induction es arbitrary: acc s)
  case Nil
  then show ?case by simp
next
  case (Cons e es)
  show ?case
  proof (cases "visit e s")
    case (Pair r s1)
    show ?thesis
    proof (cases r)
      case (Inl err)
      with Pair Cons.prems show ?thesis by simp
    next
      case (Inr added)
      with Pair Cons.prems have
        "walk_loop es (if added then acc @ [root e] else acc) s1 = (Inr ms, s')"
        by simp
      from Cons.IH [OF this Cons.prems(2)] have sub:
        "p \<in> set (if added then acc @ [root e] else acc)
           \<or> (\<exists>x \<in> set es. root x = p \<and> (\<exists>t::'a st. fst (visit x t) = Inr True))" .
      have vis: "added \<Longrightarrow> fst (visit e s) = Inr True"
        using Pair Inr by simp
      show ?thesis
      proof (cases "p \<in> set acc
                     \<or> (\<exists>x \<in> set es. root x = p \<and> (\<exists>t::'a st. fst (visit x t) = Inr True))")
        case True
        then show ?thesis by auto
      next
        case False
        with sub have "added" and "p = root e"
          by (auto split: if_splits)
        with vis show ?thesis by auto
      qed
    qed
  qed
qed

lemma ran_fold_upd:
  "ran (fold (\<lambda>p m. m(k p \<mapsto> p)) ps m0) \<subseteq> ran m0 \<union> set ps"
proof (induction ps arbitrary: m0)
  case Nil
  show ?case by simp
next
  case (Cons p ps)
  have a: "ran (m0(k p \<mapsto> p)) \<subseteq> insert p (ran m0)"
    by (auto simp: ran_def)
  have b: "fold (\<lambda>p m. m(k p \<mapsto> p)) (p # ps) m0 = fold (\<lambda>p m. m(k p \<mapsto> p)) ps (m0(k p \<mapsto> p))"
    by simp
  have c: "set (p # ps) = insert p (set ps)"
    by simp
  show ?case
    unfolding b c using Cons [of "m0(k p \<mapsto> p)"] a by blast
qed

lemma ran_example_map: "ran (example_map paths) \<subseteq> set paths"
  using ran_fold_upd [of example_test_class paths Map.empty]
  by (simp add: example_map_def)

lemma three_examples_map:
  "fst (test_find_example_makefiles below_ws ''/ws/ex'' three_examples st0)
     = Inr (example_map [''ex/a''])"
  by (simp add: test_find_example_makefiles_def three_examples_def one_container_def
        no_containers_def two_containers_def visit_def containers_block_def aws_block_def
        add_unless_ignored_def logger_info_def below_ws_def st0_def)

text \<open>
  C7. A walked directory that has a Makefile and a description.json is left out of the
  example map when the description has no "containers" key, and just as well when its
  "containers" list has more than one element: in neither case does the loop body append
  the directory, so whenever the test gets as far as its map, the directory's path is not
  among the map's values. (Each directory is walked once, so no other entry of the walk
  has the same relative path.)
\<close>

theorem find_example_makefiles_excludes:
  assumes res: "fst (test_find_example_makefiles relpath dir fs (s::'a st)) = Inr m"
    and e: "e \<in> set (dir_walk fs)"
    and mk: "makefile e" and d: "description_json e = Loaded (JObj kvs)"
    and cont: "map_of kvs ''containers'' = None
               \<or> (\<exists>cs. map_of kvs ''containers'' = Some (JArr cs) \<and> 1 < length cs)"
    and uniq: "\<forall>x \<in> set (dir_walk fs). relpath (root x) = relpath (root e) \<longrightarrow> x = e"
  shows "fst (visit e s) \<noteq> Inr True \<and> relpath (root e) \<notin> ran m"
proof -
  have never: "fst (visit e t) \<noteq> Inr True" for t :: "'a st"
    using cont visit_no_containers [OF d mk] visit_many_containers [OF d mk]
    by (metis Inr_inject)
  have "relpath (root e) \<notin> ran m"
  proof
    assume inran: "relpath (root e) \<in> ran m"
    from res obtain ms s1 where loop: "walk_loop (dir_walk fs) [] s = (Inr ms, s1)"
      and m: "m = example_map (map relpath ms)"
      by (auto simp: test_find_example_makefiles_def split: if_splits prod.splits sum.splits)
    from inran m ran_example_map [of "map relpath ms"]
    obtain p where p: "p \<in> set ms" and rp: "relpath p = relpath (root e)"
      by auto
    from walk_loop_added [OF loop p]
    obtain x where x: "x \<in> set (dir_walk fs)" "root x = p"
        "\<exists>t::'a st. fst (visit x t) = Inr True"
      by auto
    with rp uniq have "x = e" by auto
    with x(3) never show False by blast
  qed
  with never show ?thesis by simp
qed

text \<open>
  The walk over the three examples: the map holds the example with one container only;
  the one without containers and the one with two are not in it.
\<close>

theorem find_example_makefiles_excludes_witness:
  "fst (test_find_example_makefiles below_ws ''/ws/ex'' three_examples st0)
     = Inr (example_map [''ex/a''])
   \<and> ''ex/b'' \<notin> ran (example_map [''ex/a''])
   \<and> ''ex/c'' \<notin> ran (example_map [''ex/a''])"
proof -
  have b: "''ex/b'' \<notin> ran (example_map [''ex/a''])"
    using find_example_makefiles_excludes
            [where relpath = below_ws and dir = "''/ws/ex''" and fs = three_examples and s = st0
               and e = no_containers and kvs = "[(''name'', JStr ''b'')]",
             OF three_examples_map]
    by (simp add: three_examples_def one_container_def no_containers_def two_containers_def
          below_ws_def)
  have c: "''ex/c'' \<notin> ran (example_map [''ex/a''])"
    using find_example_makefiles_excludes
            [where relpath = below_ws and dir = "''/ws/ex''" and fs = three_examples and s = st0
               and e = two_containers and kvs = "[(''containers'', JArr [JObj [], JObj []])]",
             OF three_examples_map]
    by (simp add: three_examples_def one_container_def no_containers_def two_containers_def
          below_ws_def)
  show ?thesis
    using three_examples_map b c by simp
qed


section \<open>What check\_fpga\_afi\_loaded lets through\<close>

lemma check_fpga_afi_loaded_accepts:
  assumes "fst (check_fpga_afi_loaded describe image_id slot s) = Inr img"
  shows "statusName img = ''loaded'' \<and> statusCode img = ''0'' \<and> errorName img = ''ok''
         \<and> errorCode img = ''0'' \<and> agfi img = image_id"
  using assms
  by (auto simp: check_fpga_afi_loaded_def Let_def split: prod.splits if_splits)

section \<open>Claims about the slot tools\<close>

lemma digit_char_not_NL: "d < 10 \<Longrightarrow> digit_char d \<noteq> NL"
proof -
  assume "d < 10"
  then have "digit_char d \<in> set ''0123456789''"
    unfolding digit_char_def by (intro nth_mem) simp
  then show ?thesis by auto
qed

lemma str_nat_no_NL: "NL \<notin> set (str_nat n)"
proof (induction n rule: str_nat.induct)
  case (1 n)
  show ?case
  proof (cases "n < 10")
    case True
    then have "digit_char n \<noteq> NL"
      by (rule digit_char_not_NL)
    with True show ?thesis
      by (subst str_nat.simps) auto
  next
    case False
    have "digit_char (n mod 10) \<noteq> NL"
      by (rule digit_char_not_NL) simp
    with False 1 show ?thesis
      by (subst str_nat.simps) auto
  qed
qed

lemma str_int_no_NL: "NL \<notin> set (str_int i)"
  by (simp add: str_int_def str_nat_no_NL)

lemma str_split_unlines:
  "\<forall>l \<in> set ls. NL \<notin> set l \<Longrightarrow> str_split NL (unlines ls) = ls @ [[]]"
proof (induction ls)
  case Nil
  show ?case by (simp add: unlines_def)
next
  case (Cons l ls)
  then have "str_split NL (l @ NL # unlines ls) = l # str_split NL (unlines ls)"
    by (intro str_split_append_sep) simp
  with Cons show ?case by (simp add: unlines_def)
qed

lemma afidevice_row_no_NL:
  "NL \<notin> set did \<Longrightarrow> NL \<notin> set dev \<Longrightarrow> NL \<notin> set (afidevice_row slot did dev)"
  by (simp add: afidevice_row_def str_int_no_NL)

lemma cleared_afi_row_no_NL:
  "NL \<notin> set ver \<Longrightarrow> NL \<notin> set (cleared_afi_row slot ver)"
  by (simp add: cleared_afi_row_def str_int_no_NL)

lemma loaded_afi_row_no_NL:
  "NL \<notin> set ver \<Longrightarrow> NL \<notin> set img \<Longrightarrow> NL \<notin> set (loaded_afi_row slot img ver)"
  by (simp add: loaded_afi_row_def str_int_no_NL)

lemma headers_no_NL: "NL \<notin> set afi_header" "NL \<notin> set afidevice_header"
  by (simp_all add: afi_header_def afidevice_header_def)

lemma concat_pairs_length: "length (concat (map (\<lambda>i. [f i, g i]) [0..<n])) = 2 * n"
  by (induction n) simp_all

lemma concat_pairs_nth:
  "i < n \<Longrightarrow> concat (map (\<lambda>i. [f i, g i]) [0..<n]) ! (2 * i) = f i
     \<and> concat (map (\<lambda>i. [f i, g i]) [0..<n]) ! (2 * i + 1) = g i"
proof (induction n)
  case 0
  then show ?case by simp
next
  case (Suc n)
  show ?case
  proof (cases "i < n")
    case True
    with Suc.IH show ?thesis
      by (simp add: nth_append concat_pairs_length)
  next
    case False
    with Suc.prems have "i = n" by simp
    then show ?thesis
      by (simp add: nth_append concat_pairs_length)
  qed
qed

lemma describe_slots_lines:
  "concat (map (group_lines True) (map (\<lambda>i. device_group False hw (int i)) [0..<n]))
     = concat (map (\<lambda>i. [afidevice_header,
                             afidevice_row (int i) (slot2device_id hw (int i)) (slot2device hw (int i))])
                 [0..<n])"
  by (simp add: group_lines_def device_group_def comp_def)

lemma one_line_slotD:
  "one_line_fields hw \<Longrightarrow> i < num_slots hw \<Longrightarrow> one_line_slot hw (int i)"
  by (simp add: one_line_fields_def list_all_iff)

lemma describe_slots_split:
  assumes "one_line_fields hw"
  shows "str_split NL (describe_text True (map (\<lambda>i. device_group False hw (int i)) [0..<num_slots hw]))
           = concat (map (\<lambda>i. [afidevice_header,
                             afidevice_row (int i) (slot2device_id hw (int i)) (slot2device hw (int i))])
                 [0..<num_slots hw]) @ [[]]"
  unfolding describe_text_def describe_slots_lines
proof (rule str_split_unlines)
  have rows: "NL \<notin> set (afidevice_row (int i) (slot2device_id hw (int i)) (slot2device hw (int i)))"
    if "i < num_slots hw" for i
    using one_line_slotD [OF assms that]
    by (simp add: one_line_slot_def afidevice_row_no_NL)
  show "\<forall>l \<in> set (concat (map (\<lambda>i. [afidevice_header,
                             afidevice_row (int i) (slot2device_id hw (int i)) (slot2device hw (int i))])
                 [0..<num_slots hw])). NL \<notin> set l"
    using rows headers_no_NL by (auto split: if_splits)
qed

lemma afi_row_of_no_NL:
  assumes "one_line_fields hw" and "i < num_slots hw"
  shows "NL \<notin> set (afi_row_of hw (int i))"
proof -
  from assms have v: "NL \<notin> set (shell_version hw)"
    by (simp add: one_line_fields_def)
  from one_line_slotD [OF assms] have
    "NL \<notin> set (case slot2image hw (int i) of None \<Rightarrow> [] | Some image_id \<Rightarrow> image_id)"
    by (simp add: one_line_slot_def)
  with v show ?thesis
    by (simp add: afi_row_of_def cleared_afi_row_no_NL loaded_afi_row_no_NL split: option.splits)
qed

lemma describe_image_split:
  assumes "one_line_fields hw" and "i < num_slots hw"
  shows "str_split NL (describe_text True [AfiGroup [afi_row_of hw (int i)], device_group False hw (int i)])
           = [afi_header, afi_row_of hw (int i), afidevice_header,
              afidevice_row (int i) (slot2device_id hw (int i)) (slot2device hw (int i)), []]"
proof -
  from one_line_slotD [OF assms] have "NL \<notin> set (slot2device_id hw (int i))"
    "NL \<notin> set (slot2device hw (int i))"
    by (simp_all add: one_line_slot_def)
  then have "\<forall>l \<in> set [afi_header, afi_row_of hw (int i), afidevice_header,
              afidevice_row (int i) (slot2device_id hw (int i)) (slot2device hw (int i))].
              NL \<notin> set l"
    using headers_no_NL afidevice_row_no_NL afi_row_of_no_NL [OF assms] by simp
  from str_split_unlines [OF this] show ?thesis
    by (simp add: describe_text_def group_lines_def device_group_def)
qed


text \<open>
  What the caller would need and never gets. On a host whose strings are free of
  newlines, the text the slots tool prints with the header flag has, split at its
  newlines, header and row for every slot and the empty last line, num\_slots * 2 + 1
  lines in all.
\<close>

lemma describe_slots_text_lines:
  assumes "one_line_fields hw"
  shows "length (str_split NL (stdout_bytes (fst (describe_local_image_slots True False cmd hw))))
           = num_slots hw * 2 + 1"
  by (simp add: describe_local_image_slots_def describe_slots_split [OF assms]
        concat_pairs_length)

text \<open>
  C6 fails on the code: on the host with two cleared slots the tools print their header
  lines and rows, and run\_cmd hands the caller no stdout lines to count, for
  fpga-describe-local-image-slots -H as for fpga-describe-local-image -H; it raises
  TypeError. (The tools are modelled from the specification.)
\<close>

theorem describe_header_lines_raise:
  "fst (run_cmd (describe_local_image_slots True False)
          ''sudo fpga-describe-local-image-slots -H'' True True host0)
     = Inl TypeError
   \<and> fst (run_cmd (describe_local_image True 1)
            ''sudo fpga-describe-local-image -H -S 1'' True True host0)
     = Inl TypeError
   \<and> str_split NL (stdout_bytes (fst (describe_local_image True 1
                       ''sudo fpga-describe-local-image -H -S 1'' two_slot_host)))
     = [''Type  FpgaImageSlot  FpgaImageId             StatusName    StatusCode   ErrorName    ErrorCode   ShVersion'',
        ''AFI          1       none                    cleared           1        ok               0       0x04261818'',
        ''Type  FpgaImageSlot  VendorId    DeviceId    DBDF'',
        ''AFIDEVICE    1       0x1d0f      0x1042      0000:00:11.0'',
        []]"
proof -
  have h: "one_line_fields two_slot_host"
    by (simp add: two_slot_host_def one_line_fields_def one_line_slot_def upt_conv_Cons)
  have n: "(1::nat) < num_slots two_slot_host"
    by (simp add: two_slot_host_def)
  have "str_split NL (stdout_bytes (fst (describe_local_image True 1
                       ''sudo fpga-describe-local-image -H -S 1'' two_slot_host)))
          = [afi_header, afi_row_of two_slot_host 1, afidevice_header,
             afidevice_row 1 (slot2device_id two_slot_host 1) (slot2device two_slot_host 1), []]"
    using describe_image_split [OF h n] by (simp add: describe_local_image_def)
  then show ?thesis
    by (simp add: run_cmd_raises afidevice_header_def afi_header_def afidevice_row_def
          afi_row_of_def cleared_afi_row_def two_slot_host_def str_int_def str_nat.simps
          digit_char_def)
qed

text \<open>
  C4 fails on the code: in test\_clear\_local\_image the first -A clear puts the cleared slot
  in transition, and the second, given before the first has completed, is answered by the
  tool with exit code 3 and "Error: (3) busy" as the first line of its output, once and
  without retry; but run\_cmd does not report it to the caller, it raises TypeError. (The
  tools are modelled from the specification.)
\<close>

theorem async_second_request_raises:
  "fst (async_request (''busy'' @ [NL]) Clear
          ''sudo fpga-clear-local-image --request-timeout 6000 -S 0 -A''
          (world (snd (run_cmd (async_request (''busy'' @ [NL]) Clear)
                         ''sudo fpga-clear-local-image --request-timeout 6000 -S 0 -A''
                         True True slot0))))
     = \<lparr>returncode = 3, stdout_bytes = ''Error: (3) busy'' @ [NL] @ ''busy'' @ [NL],
        stderr_bytes = []\<rparr>
   \<and> fst (run_cmd (async_request (''busy'' @ [NL]) Clear)
            ''sudo fpga-clear-local-image --request-timeout 6000 -S 0 -A'' True False
            (snd (run_cmd (async_request (''busy'' @ [NL]) Clear)
                    ''sudo fpga-clear-local-image --request-timeout 6000 -S 0 -A''
                    True True slot0)))
     = Inl TypeError
   \<and> world (snd (run_cmd (async_request (''busy'' @ [NL]) Clear)
            ''sudo fpga-clear-local-image --request-timeout 6000 -S 0 -A'' True False
            (snd (run_cmd (async_request (''busy'' @ [NL]) Clear)
                    ''sudo fpga-clear-local-image --request-timeout 6000 -S 0 -A''
                    True True slot0))))
     = \<lparr>state = SlotClearing, requests = 2\<rparr>"
  by (simp add: run_cmd_raises async_request_def slot0_def mid_transition_def)

end
